theory Spec2Isabelle
  imports Complex_Main "HOL-Library.Sublist"
begin

section \<open>Values, kinds, conflicts and errors\<close>

text \<open>
  The matcher works on what \<^verbatim>\<open>json.Unmarshal\<close> stores into an \<^verbatim>\<open>interface{}\<close>:
  \<^verbatim>\<open>nil\<close>, \<^verbatim>\<open>bool\<close>, \<^verbatim>\<open>float64\<close>, \<^verbatim>\<open>string\<close>, \<^verbatim>\<open>[]interface{}\<close> and
  \<^verbatim>\<open>map[string]interface{}\<close>. A decoded number is a finite \<^verbatim>\<open>float64\<close> (the decoder
  rejects anything else), so it is the real number it denotes and \<^verbatim>\<open>reflect.DeepEqual\<close>
  on two of them is equality. A map is the list of its entries in the order in which
  \<^verbatim>\<open>MapRange\<close> visits them; Go leaves that order open, the list fixes one, and a
  statement about every list is a statement about every order. \<^verbatim>\<open>MapIndex\<close> is \<open>map_of\<close>
  on that list.
\<close>

datatype jvalue =
    JNull
  | JBool bool
  | JNumber real
  | JString string
  | JArray "jvalue list"
  | JObject "(string \<times> jvalue) list"

datatype Kind =
    reflect_Invalid | reflect_Bool | reflect_Int | reflect_Int64 | reflect_Float64
  | reflect_String | reflect_Map | reflect_Slice | reflect_Array | reflect_Ptr
  | reflect_Struct | reflect_Interface

text \<open>\<^verbatim>\<open>reflect.ValueOf(x).Kind()\<close> and \<^verbatim>\<open>reflect.ValueOf(x).IsValid()\<close>.\<close>

fun Kind_of :: "jvalue \<Rightarrow> Kind" where
  "Kind_of JNull = reflect_Invalid"
| "Kind_of (JBool b) = reflect_Bool"
| "Kind_of (JNumber n) = reflect_Float64"
| "Kind_of (JString s) = reflect_String"
| "Kind_of (JArray xs) = reflect_Slice"
| "Kind_of (JObject kvs) = reflect_Map"

definition IsValid :: "jvalue \<Rightarrow> bool" where
  "IsValid x = (x \<noteq> JNull)"

datatype panic = SliceIndexOutOfRange nat nat | IsNilOfNonNilableKind Kind

text \<open>
  \<^verbatim>\<open>Value.IsNil\<close> panics on a kind that has no nil; a decoded slice or map is never nil.
\<close>

fun IsNil :: "jvalue \<Rightarrow> panic + bool" where
  "IsNil (JArray xs) = Inr False"
| "IsNil (JObject kvs) = Inr False"
| "IsNil x = Inl (IsNilOfNonNilableKind (Kind_of x))"

text \<open>The type assertion \<^verbatim>\<open>x.(time.Time)\<close>: no decoded value is a \<^verbatim>\<open>time.Time\<close>.\<close>

definition is_time_Time :: "jvalue \<Rightarrow> bool" where
  "is_time_Time x = False"

text \<open>
  Go errors. The two first constructors are the errors of the libraries
  (\<^verbatim>\<open>json.Unmarshal\<close>, \<^verbatim>\<open>regexp.Compile\<close>), carrying their message; the others are
  the \<^verbatim>\<open>fmt.Errorf\<close> calls of the source, one constructor each, with the formatted
  operands as arguments.
\<close>

datatype error =
    json_error string
  | regexp_error string
  | cant_unmarshal_left error
  | cant_unmarshal_pattern error
  | expected_one_argument_for_regex
  | invalid_regex_argument error
  | unsupported_pattern string
  | kind_not_supported jvalue Kind
  | wrong_kind_left Kind Kind
  | wrong_kind_pattern Kind Kind
  | cant_compare_map_element_at string string error
  | cant_compare_map_element string error
  | cant_compare_slice_element nat error

record Conflict =
  Path :: string
  Expected :: jvalue
  Actual :: jvalue
  Error :: "error option"

text \<open>
  What a matcher gives back: the pair \<^verbatim>\<open>([]Conflict, error)\<close>, with \<open>None\<close> for the
  \<^verbatim>\<open>nil\<close> error, or a run-time panic.
\<close>

datatype result = Panic panic | Return "Conflict list" "error option"

text \<open>
  The library functions the matcher calls. \<open>regexp_Compile\<close> gives the error of
  \<^verbatim>\<open>regexp.Compile\<close> (\<open>None\<close> when the expression compiles), \<open>regexp_MatchString re s\<close>
  is \<^verbatim>\<open>MatchString\<close> of the expression compiled from \<open>re\<close>, \<open>time_Parse layout s\<close> says
  whether \<^verbatim>\<open>time.Parse\<close> returns no error, and \<open>fmt_Sprint_Value\<close> is \<^verbatim>\<open>fmt.Sprint\<close>
  of a \<^verbatim>\<open>reflect.Value\<close> (\<open>None\<close> for the invalid one).
\<close>

record env =
  json_Unmarshal :: "string \<Rightarrow> error + jvalue"
  regexp_Compile :: "string \<Rightarrow> error option"
  regexp_MatchString :: "string \<Rightarrow> string \<Rightarrow> bool"
  time_Parse :: "string \<Rightarrow> string \<Rightarrow> bool"
  fmt_Sprint_Value :: "jvalue option \<Rightarrow> string"

section \<open>Strings\<close>

definition HasPrefix :: "string \<Rightarrow> string \<Rightarrow> bool" where
  "HasPrefix s p = (take (length p) s = p)"

text \<open>\<^verbatim>\<open>strings.SplitN(s, " ", 2)\<close>: cut at the first space, if there is one.\<close>

definition SplitN_space_2 :: "string \<Rightarrow> string list" where
  "SplitN_space_2 s =
     (if CHR '' '' \<in> set s
      then [takeWhile (\<lambda>c. c \<noteq> CHR '' '') s, tl (dropWhile (\<lambda>c. c \<noteq> CHR '' '') s)]
      else [s])"

text \<open>\<^verbatim>\<open>fmt.Sprint(i)\<close> of a loop index: its decimal digits.\<close>

definition digit_char :: "nat \<Rightarrow> char" where
  "digit_char d = ''0123456789'' ! d"

function Sprint_int :: "nat \<Rightarrow> string" where
  "Sprint_int n =
     (if n < 10 then [digit_char n] else Sprint_int (n div 10) @ [digit_char (n mod 10)])"
  by pat_completeness auto
termination
  by (relation "measure (\<lambda>n. n)") auto

declare Sprint_int.simps [simp del]

section \<open>Markers\<close>

definition ignoreMarker :: string where "ignoreMarker = ''#ignore''"
definition nullMarker :: string where "nullMarker = ''#null''"
definition presentMarker :: string where "presentMarker = ''#present''"

definition uuidRe :: string where
  "uuidRe = ''(?i)^[a-f0-9]{8}-[a-f0-9]{4}-[a-f0-9]{4}-[a-f0-9]{4}-[a-f0-9]{12}$''"

definition uuidV4Re :: string where
  "uuidV4Re = ''(?i)^[a-f0-9]{8}-[a-f0-9]{4}-4[a-f0-9]{3}-[89aAbB][a-f0-9]{3}-[a-f0-9]{12}$''"

definition time_RFC3339 :: string where
  "time_RFC3339 = ''2006-01-02T15:04:05Z07:00''"

fun getMarker :: "jvalue \<Rightarrow> bool \<times> string" where
  "getMarker (JString specString) =
     (if HasPrefix specString ''#'' then (True, specString) else (False, ''''))"
| "getMarker y = (False, '''')"

definition isMarker :: "jvalue \<Rightarrow> string \<Rightarrow> bool" where
  "isMarker y marker = (case getMarker y of (isMarker, gotMarker) \<Rightarrow> isMarker \<and> marker = gotMarker)"

definition matchZero :: "string \<Rightarrow> jvalue \<Rightarrow> Conflict list" where
  "matchZero path x =
     (if \<not> IsValid x then []
      else [\<lparr>Path = path, Expected = JNull, Actual = x, Error = None\<rparr>])"

text \<open>
  The body of a string-only marker (\<^verbatim>\<open>#uuid\<close>, \<^verbatim>\<open>#uuid-v4\<close>, and \<^verbatim>\<open>#regex\<close> once its
  argument has compiled): a conflict unless \<open>x\<close> is a string that the expression matches.
\<close>

definition matchStringRe :: "env \<Rightarrow> Conflict \<Rightarrow> jvalue \<Rightarrow> string \<Rightarrow> result" where
  "matchStringRe e possibleConflict x re =
     (if Kind_of x \<noteq> reflect_String then Return [possibleConflict] None
      else case x of
             JString xString \<Rightarrow>
               if regexp_MatchString e re xString then Return [] None
               else Return [possibleConflict] None
           | _ \<Rightarrow> Return [possibleConflict] None)"

text \<open>The body shared by \<^verbatim>\<open>#date\<close> and \<^verbatim>\<open>#datetime\<close>, which differ in the layout.\<close>

definition matchTime :: "env \<Rightarrow> Conflict \<Rightarrow> jvalue \<Rightarrow> string \<Rightarrow> result" where
  "matchTime e possibleConflict x layout =
     (if Kind_of x = reflect_String then
        (case x of
           JString xString \<Rightarrow>
             if time_Parse e layout xString then Return [] None
             else Return [possibleConflict] None
         | _ \<Rightarrow> Return [possibleConflict] None)
      else if Kind_of x = reflect_Struct \<and> is_time_Time x then Return [] None
      else Return [possibleConflict] None)"

definition matchWithMarker :: "env \<Rightarrow> string \<Rightarrow> jvalue \<Rightarrow> string \<Rightarrow> result" where
  "matchWithMarker e path x marker =
     (let possibleConflict = \<lparr>Path = path, Expected = JString marker, Actual = x, Error = None\<rparr> in
      if x = JNull \<and> (marker = ignoreMarker \<or> marker = nullMarker \<or> marker = presentMarker)
      then Return [] None
      else if \<not> IsValid x then Return [possibleConflict] None
      else
        let markerParts = SplitN_space_2 marker; name = hd markerParts in
        if name = ignoreMarker then Return [] None
        else if name = nullMarker then
          (if Kind_of x \<noteq> reflect_Ptr then Return [possibleConflict] None
           else case IsNil x of
                  Inl p \<Rightarrow> Panic p
                | Inr isnil \<Rightarrow> if isnil then Return [] None else Return [possibleConflict] None)
        else if name = ''#notnull'' then
          (if Kind_of x \<noteq> reflect_Ptr then Return [] None
           else case IsNil x of
                  Inl p \<Rightarrow> Panic p
                | Inr isnil \<Rightarrow> if \<not> isnil then Return [] None else Return [possibleConflict] None)
        else if name = presentMarker then Return [] None
        else if name = ''#notpresent'' then Return [possibleConflict] None
        else if name = ''#array'' then
          (if Kind_of x \<noteq> reflect_Array \<and> Kind_of x \<noteq> reflect_Slice
           then Return [possibleConflict] None else Return [] None)
        else if name = ''#object'' then
          (if Kind_of x \<noteq> reflect_Map then Return [possibleConflict] None else Return [] None)
        else if name = ''#bool'' \<or> name = ''#boolean'' then
          (if Kind_of x \<noteq> reflect_Bool then Return [possibleConflict] None else Return [] None)
        else if name = ''#number'' then
          (if Kind_of x \<noteq> reflect_Int64 \<and> Kind_of x \<noteq> reflect_Float64
           then Return [possibleConflict] None else Return [] None)
        else if name = ''#string'' then
          (if Kind_of x \<noteq> reflect_String then Return [possibleConflict] None else Return [] None)
        else if name = ''#date'' then matchTime e possibleConflict x ''2006-01-02''
        else if name = ''#datetime'' then matchTime e possibleConflict x time_RFC3339
        else if name = ''#uuid'' then matchStringRe e possibleConflict x uuidRe
        else if name = ''#uuid-v4'' then matchStringRe e possibleConflict x uuidV4Re
        else if name = ''#regex'' then
          (if length markerParts \<noteq> 2
           then Return [possibleConflict] (Some expected_one_argument_for_regex)
           else case regexp_Compile e (markerParts ! 1) of
                  Some err \<Rightarrow> Return [possibleConflict] (Some (invalid_regex_argument err))
                | None \<Rightarrow> matchStringRe e possibleConflict x (markerParts ! 1))
        else Return [possibleConflict] (Some (unsupported_pattern marker)))"

section \<open>The matchers\<close>

definition matchPrimitive :: "string \<Rightarrow> jvalue \<Rightarrow> jvalue \<Rightarrow> result" where
  "matchPrimitive path x y =
     (if x \<noteq> y then Return [\<lparr>Path = path, Expected = y, Actual = x, Error = None\<rparr>] None
      else Return [] None)"

datatype matcher = the_matchPrimitive | the_matchMap | the_matchSlice

definition matchers :: "Kind \<Rightarrow> matcher option" where
  "matchers = map_of
     [(reflect_Bool, the_matchPrimitive),
      (reflect_String, the_matchPrimitive),
      (reflect_Int, the_matchPrimitive),
      (reflect_Int64, the_matchPrimitive),
      (reflect_Float64, the_matchPrimitive),
      (reflect_Map, the_matchMap),
      (reflect_Slice, the_matchSlice),
      (reflect_Array, the_matchSlice)]"

text \<open>
  The kind of a \<^verbatim>\<open>reflect.Value\<close> taken out of a \<^verbatim>\<open>map[string]interface{}\<close> by
  \<^verbatim>\<open>MapRange\<close>: the element type is an interface, whatever it holds.
\<close>

definition MapElem_Kind :: "jvalue \<Rightarrow> Kind" where
  "MapElem_Kind v = reflect_Interface"

text \<open>
  The recursive matchers. \<^verbatim>\<open>_match\<close> reaches \<^verbatim>\<open>_matchMap\<close> and \<^verbatim>\<open>_matchSlice\<close> through the
  table \<open>matchers\<close>, and they call \<^verbatim>\<open>_match\<close> on the elements. Each \<^verbatim>\<open>for\<close> loop is a
  function of its own, with the slice \<^verbatim>\<open>conflicts\<close> it appends to as its last argument:
  the loops over \<^verbatim>\<open>MapRange\<close> run down the entries still to visit, the loop of
  \<^verbatim>\<open>_matchSlice\<close> counts \<open>i\<close> up to \<^verbatim>\<open>sliceLen\<close>. \<^verbatim>\<open>vY.Index(i)\<close> panics when \<open>i\<close> is
  not below the length of \<open>vY\<close>; \<^verbatim>\<open>vX.Index(i)\<close> is only reached with \<open>i\<close> below
  \<^verbatim>\<open>sliceLen\<close>, the length of \<open>vX\<close>.
\<close>

text \<open>\<^verbatim>\<open>Value.Index(i)\<close> of a slice: a panic when \<open>i\<close> is out of range.\<close>

definition Index :: "jvalue list \<Rightarrow> nat \<Rightarrow> panic + jvalue" where
  "Index v i = (if i < length v then Inr (v ! i) else Inl (SliceIndexOutOfRange i (length v)))"

lemma size_nth_less: "i < length xs \<Longrightarrow> size (xs ! i) < size_list size (xs :: jvalue list)"
proof -
  have "x \<in> set xs \<Longrightarrow> size x < size_list size xs" for x :: jvalue
    by (induction xs) auto
  then show "i < length xs \<Longrightarrow> size (xs ! i) < size_list size xs"
    by simp
qed

lemma size_map_of_less:
  "map_of kvs k = Some v \<Longrightarrow> size v < size_list (size_prod (\<lambda>_. 0) size) (kvs :: (string \<times> jvalue) list)"
  by (induction kvs) (auto split: if_splits)

fun call_size where
  "call_size (Inl (Inl (e :: env, path :: string, x :: jvalue, spec :: jvalue))) = size (x :: jvalue) + size (spec :: jvalue)"
| "call_size (Inl (Inr (Inl (e :: env, path :: string, x :: jvalue, y :: jvalue)))) = size (x :: jvalue) + size (y :: jvalue)"
| "call_size (Inl (Inr (Inr (e :: env, path :: string, iterX :: (string \<times> jvalue) list, vY :: (string \<times> jvalue) list, conflicts :: Conflict list)))) =
     size_list (size_prod (\<lambda>_. 0) size) (iterX :: (string \<times> jvalue) list)
     + size_list (size_prod (\<lambda>_. 0) size) (vY :: (string \<times> jvalue) list)"
| "call_size (Inr (Inl (e :: env, path :: string, vX :: (string \<times> jvalue) list, iterY :: (string \<times> jvalue) list, conflicts :: Conflict list))) =
     size_list (size_prod (\<lambda>_. 0) size) (vX :: (string \<times> jvalue) list)
     + size_list (size_prod (\<lambda>_. 0) size) (iterY :: (string \<times> jvalue) list)"
| "call_size (Inr (Inr (Inl (e :: env, path :: string, x :: jvalue, y :: jvalue)))) = size (x :: jvalue) + size (y :: jvalue)"
| "call_size (Inr (Inr (Inr (e :: env, path :: string, vX :: jvalue list, vY :: jvalue list, isArrayOf :: bool, arrayOf :: jvalue, i :: nat, conflicts :: Conflict list)))) =
     size_list size (vX :: jvalue list)
     + (if isArrayOf then size (arrayOf :: jvalue) else size_list size (vY :: jvalue list))"

fun call_rank where
  "call_rank (Inl (Inl (e :: env, path :: string, x :: jvalue, spec :: jvalue))) = (1 :: nat)"
| "call_rank (Inl (Inr (Inl (e :: env, path :: string, x :: jvalue, y :: jvalue)))) = 0"
| "call_rank (Inl (Inr (Inr (e :: env, path :: string, iterX :: (string \<times> jvalue) list, vY :: (string \<times> jvalue) list, conflicts :: Conflict list)))) = 0"
| "call_rank (Inr (Inl (e :: env, path :: string, vX :: (string \<times> jvalue) list, iterY :: (string \<times> jvalue) list, conflicts :: Conflict list))) = 0"
| "call_rank (Inr (Inr (Inl (e :: env, path :: string, x :: jvalue, y :: jvalue)))) = 0"
| "call_rank (Inr (Inr (Inr (e :: env, path :: string, vX :: jvalue list, vY :: jvalue list, isArrayOf :: bool, arrayOf :: jvalue, i :: nat, conflicts :: Conflict list)))) =
     length (vX :: jvalue list) - (i :: nat)"

function (sequential) match :: "env \<Rightarrow> string \<Rightarrow> jvalue \<Rightarrow> jvalue \<Rightarrow> result"
  and matchMap :: "env \<Rightarrow> string \<Rightarrow> jvalue \<Rightarrow> jvalue \<Rightarrow> result"
  and matchMapCheckIteratingObject_loop ::
    "env \<Rightarrow> string \<Rightarrow> (string \<times> jvalue) list \<Rightarrow> (string \<times> jvalue) list \<Rightarrow> Conflict list \<Rightarrow> result"
  and matchMapCheckIteratingSpec_loop ::
    "env \<Rightarrow> string \<Rightarrow> (string \<times> jvalue) list \<Rightarrow> (string \<times> jvalue) list \<Rightarrow> Conflict list \<Rightarrow> result"
  and matchSlice :: "env \<Rightarrow> string \<Rightarrow> jvalue \<Rightarrow> jvalue \<Rightarrow> result"
  and matchSlice_loop ::
    "env \<Rightarrow> string \<Rightarrow> jvalue list \<Rightarrow> jvalue list \<Rightarrow> bool \<Rightarrow> jvalue \<Rightarrow> nat \<Rightarrow> Conflict list \<Rightarrow> result"
where
  "match e path x spec =
     (let possibleConflict = \<lparr>Path = path, Expected = spec, Actual = x, Error = None\<rparr> in
      if \<not> IsValid spec then Return (matchZero path x) None
      else if Kind_of spec = reflect_String \<and> fst (getMarker spec)
      then matchWithMarker e path x (snd (getMarker spec))
      else if \<not> IsValid x then Return [possibleConflict] None
      else if Kind_of x \<noteq> Kind_of spec then Return [possibleConflict] None
      else case matchers (Kind_of spec) of
             Some the_matchPrimitive \<Rightarrow> matchPrimitive path x spec
           | Some the_matchMap \<Rightarrow> matchMap e path x spec
           | Some the_matchSlice \<Rightarrow> matchSlice e path x spec
           | None \<Rightarrow> Return [possibleConflict] (Some (kind_not_supported x (Kind_of x))))"
| "matchMap e path x y =
     (let possibleConflict = \<lparr>Path = path, Expected = y, Actual = x, Error = None\<rparr> in
      case x of
        JObject vX \<Rightarrow>
          (case y of
             JObject vY \<Rightarrow>
               (case matchMapCheckIteratingObject_loop e path vX vY [] of
                  Panic p \<Rightarrow> Panic p
                | Return conflicts err \<Rightarrow>
                    if length conflicts > 0 then Return conflicts err
                    else matchMapCheckIteratingSpec_loop e path vX vY [])
           | _ \<Rightarrow> Return [possibleConflict] (Some (wrong_kind_pattern reflect_Map (Kind_of x))))
      | _ \<Rightarrow> Return [possibleConflict] (Some (wrong_kind_left reflect_Map (Kind_of x))))"
| "matchMapCheckIteratingObject_loop e path [] vY conflicts = Return conflicts None"
| "matchMapCheckIteratingObject_loop e path ((key, xElem) # iterX) vY conflicts =
     (case map_of vY key of
        None \<Rightarrow> matchMapCheckIteratingObject_loop e path iterX vY conflicts
      | Some ySpecValue \<Rightarrow>
          (case match e (path @ ''/'' @ key) xElem ySpecValue of
             Panic p \<Rightarrow> Panic p
           | Return itemConflicts err \<Rightarrow>
               (case err of
                  Some err' \<Rightarrow>
                    Return (conflicts @ itemConflicts)
                      (Some (cant_compare_map_element_at path key err'))
                | None \<Rightarrow>
                    matchMapCheckIteratingObject_loop e path iterX vY (conflicts @ itemConflicts))))"
| "matchMapCheckIteratingSpec_loop e path vX [] conflicts = Return conflicts None"
| "matchMapCheckIteratingSpec_loop e path vX ((key, ySpecValue) # iterY) conflicts =
     (let xValue = map_of vX key;
          possibleConflict = \<lparr>Path = path @ ''/'' @ key, Expected = ySpecValue,
                               Actual = JString (fmt_Sprint_Value e xValue), Error = None\<rparr> in
      if MapElem_Kind ySpecValue = reflect_Interface \<and> fst (getMarker ySpecValue)
         \<and> snd (getMarker ySpecValue) = ''#notpresent''
      then matchMapCheckIteratingSpec_loop e path vX iterY
             (if xValue \<noteq> None then conflicts @ [possibleConflict] else conflicts)
      else if MapElem_Kind ySpecValue = reflect_Interface \<and> fst (getMarker ySpecValue)
         \<and> snd (getMarker ySpecValue) = presentMarker
      then matchMapCheckIteratingSpec_loop e path vX iterY
             (if xValue = None then conflicts @ [possibleConflict] else conflicts)
      else if \<not> isMarker ySpecValue ignoreMarker then
        (case xValue of
           None \<Rightarrow> matchMapCheckIteratingSpec_loop e path vX iterY (conflicts @ [possibleConflict])
         | Some xv \<Rightarrow>
             (case match e (path @ ''/'' @ key) xv ySpecValue of
                Panic p \<Rightarrow> Panic p
              | Return itemConflicts err \<Rightarrow>
                  (case err of
                     Some err' \<Rightarrow>
                       Return (conflicts @ itemConflicts) (Some (cant_compare_map_element key err'))
                   | None \<Rightarrow>
                       matchMapCheckIteratingSpec_loop e path vX iterY (conflicts @ itemConflicts))))
      else matchMapCheckIteratingSpec_loop e path vX iterY conflicts)"
| "matchSlice e path x y =
     (let possibleConflict = \<lparr>Path = path, Expected = y, Actual = x, Error = None\<rparr> in
      case x of
        JArray vX \<Rightarrow>
          (case y of
             JArray vY \<Rightarrow>
               if length vY = 2 then
                 (if fst (getMarker (vY ! 0)) \<and> snd (getMarker (vY ! 0)) = ''#array-of''
                  then matchSlice_loop e path vX vY True (vY ! 1) 0 []
                  else matchSlice_loop e path vX vY False JNull 0 [])
               else if length vX \<noteq> length vY then Return [possibleConflict] None
               else matchSlice_loop e path vX vY False JNull 0 []
           | _ \<Rightarrow> Return [possibleConflict] (Some (wrong_kind_pattern reflect_Slice (Kind_of x))))
      | _ \<Rightarrow> Return [possibleConflict] (Some (wrong_kind_left reflect_Slice (Kind_of x))))"
| "matchSlice_loop e path vX vY isArrayOf arrayOf i conflicts =
     (if i < length vX then
        (case (if isArrayOf then Inr arrayOf else Index vY i) of
           Inl p \<Rightarrow> Panic p
         | Inr ySpecElem \<Rightarrow>
             (case match e (path @ ''['' @ Sprint_int i @ '']'') (vX ! i) ySpecElem of
                Panic p \<Rightarrow> Panic p
              | Return itemMatches err \<Rightarrow>
                  (case err of
                     Some err' \<Rightarrow>
                       Return (conflicts @ itemMatches) (Some (cant_compare_slice_element i err'))
                   | None \<Rightarrow>
                       matchSlice_loop e path vX vY isArrayOf arrayOf (i + 1)
                         (conflicts @ itemMatches))))
      else Return conflicts None)"
  by pat_completeness auto

termination match
proof (relation "measures [call_size, call_rank]", goal_cases)
  case 1 show ?case by simp
next
  case (15 e path x y xa x5 x5a)
  then show ?case using size_nth_less [of 1 x5a] by simp
next
  case (18 e path vX vY isArrayOf arrayOf i conflicts ySpecElem)
  then show ?case using size_nth_less [of i vX] size_nth_less [of i vY]
    by (auto simp: Index_def split: if_splits)
qed (auto dest: size_map_of_less size_map_of_less [OF sym])

declare match.simps [simp del] matchMap.simps [simp del] matchSlice.simps [simp del]
  matchSlice_loop.simps [simp del]

definition matchMapCheckIteratingObject ::
    "env \<Rightarrow> string \<Rightarrow> (string \<times> jvalue) list \<Rightarrow> (string \<times> jvalue) list \<Rightarrow> result" where
  "matchMapCheckIteratingObject e path vX vY = matchMapCheckIteratingObject_loop e path vX vY []"

definition matchMapCheckIteratingSpec ::
    "env \<Rightarrow> string \<Rightarrow> (string \<times> jvalue) list \<Rightarrow> (string \<times> jvalue) list \<Rightarrow> result" where
  "matchMapCheckIteratingSpec e path vX vY = matchMapCheckIteratingSpec_loop e path vX vY []"

section \<open>The entry points\<close>

text \<open>The body of the loop that rewrites the paths: \<^verbatim>\<open>c.Path = c.Path[1:]\<close>.\<close>

definition stripPath :: "Conflict \<Rightarrow> Conflict" where
  "stripPath c = (if HasPrefix (Path c) ''//'' then c\<lparr>Path := drop 1 (Path c)\<rparr> else c)"

definition JSONMatches :: "env \<Rightarrow> string \<Rightarrow> string \<Rightarrow> result" where
  "JSONMatches e j jPatternSpecifier =
     (case json_Unmarshal e j of
        Inl err \<Rightarrow>
          Return [\<lparr>Path = ''/'', Expected = JNull, Actual = JNull, Error = Some err\<rparr>]
            (Some (cant_unmarshal_left err))
      | Inr jAny \<Rightarrow>
          (case json_Unmarshal e jPatternSpecifier of
             Inl err \<Rightarrow>
               Return [\<lparr>Path = ''/'', Expected = JNull, Actual = JNull, Error = Some err\<rparr>]
                 (Some (cant_unmarshal_pattern err))
           | Inr patternSpecAny \<Rightarrow>
               (case match e ''/'' jAny patternSpecAny of
                  Panic p \<Rightarrow> Panic p
                | Return conflicts err \<Rightarrow> Return (map stripPath conflicts) err)))"

definition JSONStringMatches :: "env \<Rightarrow> string \<Rightarrow> string \<Rightarrow> result" where
  "JSONStringMatches e j jPatternSpecifier = JSONMatches e j jPatternSpecifier"

section \<open>Predicates on values and markers\<close>

text \<open>
  A literal pattern: no string in it (at any depth, object keys apart) begins with \<^verbatim>\<open>#\<close>,
  so \<^verbatim>\<open>getMarker\<close> answers no on every value in it.
\<close>

fun literal :: "jvalue \<Rightarrow> bool" where
  "literal (JString s) = (\<not> HasPrefix s ''#'')"
| "literal (JArray xs) = (\<forall>x \<in> set xs. literal x)"
| "literal (JObject kvs) = (\<forall>kv \<in> set kvs. literal (snd kv))"
| "literal v = True"

text \<open>The keys of a Go map are distinct: an entry list stands for a map when this holds.\<close>

fun unique_keys :: "jvalue \<Rightarrow> bool" where
  "unique_keys (JArray xs) = (\<forall>x \<in> set xs. unique_keys x)"
| "unique_keys (JObject kvs) = (distinct (map fst kvs) \<and> (\<forall>kv \<in> set kvs. unique_keys (snd kv)))"
| "unique_keys v = True"

text \<open>
  Two values that differ at most in the order of the entries of their objects: what two
  decodings of one document are, since each Go map is visited in an order of its own.
\<close>

function same_value :: "jvalue \<Rightarrow> jvalue \<Rightarrow> bool" where
  "same_value (JArray xs) q =
     (case q of
        JArray ys \<Rightarrow> length xs = length ys \<and> (\<forall>i < length xs. same_value (xs ! i) (ys ! i))
      | _ \<Rightarrow> False)"
| "same_value (JObject kvs) q =
     (case q of
        JObject kvs' \<Rightarrow>
          set (map fst kvs) = set (map fst kvs')
          \<and> (\<forall>kv \<in> set kvs.
                case map_of kvs' (fst kv) of Some v' \<Rightarrow> same_value (snd kv) v' | None \<Rightarrow> False)
      | _ \<Rightarrow> False)"
| "same_value JNull q = (q = JNull)"
| "same_value (JBool b) q = (q = JBool b)"
| "same_value (JNumber n) q = (q = JNumber n)"
| "same_value (JString s) q = (q = JString s)"
  by pat_completeness auto
termination
proof (relation "measure (\<lambda>(p, q). size p)", goal_cases)
  case 1 show ?case by simp
next
  case (2 xs q ys i)
  then show ?case using size_nth_less [of i xs] by simp
next
  case (3 kvs q kvs' kv v')
  then have "size (snd kv) < Suc (size_list (size_prod (\<lambda>_. 0) size) kvs)"
    by (induction kvs) (auto simp: less_Suc_eq)
  then show ?case by simp
qed

text \<open>The \<^verbatim>\<open>case\<close> labels of the \<^verbatim>\<open>switch\<close> in \<^verbatim>\<open>_matchWithMarker\<close>.\<close>

definition supportedMarkers :: "string list" where
  "supportedMarkers =
     [''#ignore'', ''#null'', ''#notnull'', ''#present'', ''#notpresent'', ''#array'', ''#object'',
      ''#bool'', ''#boolean'', ''#number'', ''#string'', ''#date'', ''#datetime'', ''#uuid'',
      ''#uuid-v4'', ''#regex'']"

text \<open>
  A result with the \<^verbatim>\<open>Expected\<close> field of its conflicts replaced: what distinguishes the
  result for a marker from the result for its name alone.
\<close>

definition with_expected :: "jvalue \<Rightarrow> result \<Rightarrow> result" where
  "with_expected v r =
     (case r of Panic p \<Rightarrow> Panic p
      | Return conflicts err \<Rightarrow> Return (map (\<lambda>c. c\<lparr>Expected := v\<rparr>) conflicts) err)"







section \<open>A test double for the libraries\<close>

text \<open>
  The statements below hold for every \<open>env\<close>. Where one is run on concrete input, the
  libraries are replaced by a double: a decoder that knows the documents used in this
  file (and reports a syntax error for any other text), a regular-expression compiler that
  rejects the unbalanced \<^verbatim>\<open>(\<close>, and a matcher for the expressions without operators
  that are used here.
\<close>

definition example_Unmarshal :: "string \<Rightarrow> error + jvalue" where
  \<open>example_Unmarshal s =
     (if s = ''{"/a":1}'' then Inr (JObject [(''/a'', JNumber 1)])
      else if s = ''{"/a":2}'' then Inr (JObject [(''/a'', JNumber 2)])
      else if s = ''[1,"x"]'' then Inr (JArray [JNumber 1, JString ''x''])
      else if s = ''[2,"#bogus"]'' then Inr (JArray [JNumber 2, JString ''#bogus''])
      else if s = ''{"a":1}'' then Inr (JObject [(''a'', JNumber 1)])
      else if s = ''{"a":2}'' then Inr (JObject [(''a'', JNumber 2)])
      else Inl (json_error ''invalid character''))\<close>

definition example_env :: env where
  "example_env =
     \<lparr>json_Unmarshal = example_Unmarshal,
      regexp_Compile =
        (\<lambda>re. if re = ''('' then Some (regexp_error ''missing closing )'') else None),
      regexp_MatchString = (\<lambda>re s. re = s),
      time_Parse = (\<lambda>layout s. False),
      fmt_Sprint_Value =
        (\<lambda>v. case v of None \<Rightarrow> ''<invalid reflect.Value>'' | Some x \<Rightarrow> ''<value>'')\<rparr>"

section \<open>Unfolding the matchers on given input\<close>

lemmas matcher_unfold =
  match.simps matchMap.simps matchSlice.simps matchSlice_loop.simps
  matchPrimitive_def matchWithMarker_def matchStringRe_def matchTime_def matchers_def
  IsValid_def matchZero_def HasPrefix_def SplitN_space_2_def isMarker_def MapElem_Kind_def
  Index_def ignoreMarker_def nullMarker_def presentMarker_def

lemmas example_unfold =
  JSONMatches_def example_env_def example_Unmarshal_def stripPath_def
  Sprint_int.simps digit_char_def

section \<open>Array matching: the length check\<close>

text \<open>
  The length check of \<^verbatim>\<open>_matchSlice\<close> is the \<^verbatim>\<open>else\<close> branch of the test
  \<^verbatim>\<open>vY.Len() == 2\<close>. For a pattern whose length is not two it does what is expected of it:
  one conflict for the whole array, and no element is looked at.
\<close>

lemma matchSlice_length_mismatch:
  assumes "length vY \<noteq> 2" and "length vX \<noteq> length vY"
  shows "matchSlice e path (JArray vX) (JArray vY) =
           Return [\<lparr>Path = path, Expected = JArray vY, Actual = JArray vX, Error = None\<rparr>] None"
  using assms by (simp add: matchSlice.simps)

text \<open>
  Past the length check the two arrays are equally long, and \<^verbatim>\<open>vY.Index(i)\<close> is in range
  for every index of the loop.
\<close>

lemma matchSlice_loop_index_in_range:
  assumes "length vX = length vY" and "i < length vX"
  shows "Index vY i = Inr (vY ! i)"
  using assms by (simp add: Index_def)

text \<open>
  C1. Claim: for every pattern array that is not the wildcard form
  \<^verbatim>\<open>["#array-of", p]\<close> and every actual array of another length, the array matcher returns
  exactly one conflict, for the whole array, and does no element-wise matching.
  The code does not: a pattern of two elements that is not the wildcard form never reaches
  the length check. With the pattern \<^verbatim>\<open>[1, 2]\<close> and the actual array \<^verbatim>\<open>[1]\<close> the loop
  runs over the one element of the actual array, finds it equal to the first element of the
  pattern, and the matcher reports no conflict at all.
\<close>

theorem matchSlice_two_element_pattern_skips_length_check:
  "matchSlice e ''/'' (JArray [JNumber 1]) (JArray [JNumber 1, JNumber 2]) = Return [] None"
  by (simp add: matcher_unfold)

text \<open>
  C2. Claim: in the element-wise phase with a non-wildcard pattern every index of the
  actual array is a valid index of the pattern array, so that indexing the pattern never
  fails. The code does not ensure it, for the reason given at C1: with the two-element
  pattern \<^verbatim>\<open>[1, 2]\<close> and the actual array \<^verbatim>\<open>[1, 2, 3]\<close> the loop reaches \<open>i = 2\<close> and
  \<^verbatim>\<open>vY.Index(2)\<close> panics.
\<close>

theorem matchSlice_two_element_pattern_index_out_of_range:
  "matchSlice e ''/'' (JArray [JNumber 1, JNumber 2, JNumber 3]) (JArray [JNumber 1, JNumber 2])
     = Panic (SliceIndexOutOfRange 2 2)"
  by (simp add: matcher_unfold)

section \<open>Object matching: the two phases\<close>

text \<open>
  C3. When the first phase of the object matcher (over the keys of the actual object
  that the pattern has too) returns at least one conflict, \<^verbatim>\<open>_matchMap\<close> returns what that
  phase returned and the second phase, with its checks of \<^verbatim>\<open>#present\<close> and
  \<^verbatim>\<open>#notpresent\<close>, has no part in the result; when the first phase returns no conflict
  the result is the one of the second phase. A panic of the first phase is the panic of
  \<^verbatim>\<open>_matchMap\<close>.
\<close>

theorem matchMap_first_phase_decides:
  "(matchMapCheckIteratingObject e path vX vY = Return conflicts err \<and> conflicts \<noteq> []
      \<longrightarrow> matchMap e path (JObject vX) (JObject vY) = Return conflicts err)
   \<and> (matchMapCheckIteratingObject e path vX vY = Return [] err
      \<longrightarrow> matchMap e path (JObject vX) (JObject vY) = matchMapCheckIteratingSpec e path vX vY)
   \<and> (matchMapCheckIteratingObject e path vX vY = Panic p
      \<longrightarrow> matchMap e path (JObject vX) (JObject vY) = Panic p)"
  by (simp add: matchMap.simps matchMapCheckIteratingObject_def matchMapCheckIteratingSpec_def)

text \<open>
  With the actual object \<^verbatim>\<open>{"a":1}\<close> and the pattern \<^verbatim>\<open>{"a":2,"c":"#present"}\<close> the first
  phase finds the conflict at \<^verbatim>\<open>a\<close>, and the missing key \<^verbatim>\<open>c\<close>, which the second phase
  reports when it runs, is not in the result. With the pattern \<^verbatim>\<open>{"a":1,"c":"#present"}\<close>
  the first phase finds nothing and the second reports \<^verbatim>\<open>c\<close>.
\<close>

theorem matchMap_first_phase_decides_witness:
  "matchMapCheckIteratingObject example_env ''/'' [(''a'', JNumber 1)]
       [(''a'', JNumber 2), (''c'', JString ''#present'')]
     = Return [\<lparr>Path = ''//a'', Expected = JNumber 2, Actual = JNumber 1, Error = None\<rparr>] None
   \<and> matchMap example_env ''/'' (JObject [(''a'', JNumber 1)])
       (JObject [(''a'', JNumber 2), (''c'', JString ''#present'')])
     = Return [\<lparr>Path = ''//a'', Expected = JNumber 2, Actual = JNumber 1, Error = None\<rparr>] None
   \<and> matchMapCheckIteratingSpec example_env ''/'' [(''a'', JNumber 1)]
       [(''a'', JNumber 2), (''c'', JString ''#present'')]
     = Return [\<lparr>Path = ''//a'', Expected = JNumber 2, Actual = JNumber 1, Error = None\<rparr>,
               \<lparr>Path = ''//c'', Expected = JString ''#present'',
                Actual = JString ''<invalid reflect.Value>'', Error = None\<rparr>] None
   \<and> matchMapCheckIteratingObject example_env ''/'' [(''a'', JNumber 1)]
       [(''a'', JNumber 1), (''c'', JString ''#present'')]
     = Return [] None
   \<and> matchMap example_env ''/'' (JObject [(''a'', JNumber 1)])
       (JObject [(''a'', JNumber 1), (''c'', JString ''#present'')])
     = Return [\<lparr>Path = ''//c'', Expected = JString ''#present'',
                Actual = JString ''<invalid reflect.Value>'', Error = None\<rparr>] None"
  using matchMap_first_phase_decides [of example_env "''/''" "[(''a'', JNumber 1)]"
      "[(''a'', JNumber 2), (''c'', JString ''#present'')]"
      "[\<lparr>Path = ''//a'', Expected = JNumber 2, Actual = JNumber 1, Error = None\<rparr>]" None]
    matchMap_first_phase_decides [of example_env "''/''" "[(''a'', JNumber 1)]"
      "[(''a'', JNumber 1), (''c'', JString ''#present'')]" _ None]
  by (simp add: matchMapCheckIteratingObject_def matchMapCheckIteratingSpec_def
      matcher_unfold example_env_def)

section \<open>Markers: name and argument\<close>

lemma SplitN_no_space: "CHR '' '' \<notin> set s \<Longrightarrow> SplitN_space_2 s = [s]"
  by (simp add: SplitN_space_2_def)

lemma SplitN_first_space:
  "CHR '' '' \<notin> set name \<Longrightarrow> SplitN_space_2 (name @ CHR '' '' # rest) = [name, rest]"
  by (simp add: SplitN_space_2_def takeWhile_append2 dropWhile_append2 takeWhile_append dropWhile_append)

lemma SplitN_regex: "SplitN_space_2 ''#regex'' = [''#regex'']"
  by (simp add: SplitN_space_2_def)

lemma SplitN_regex_arg: "SplitN_space_2 (''#regex '' @ arg) = [''#regex'', arg]"
  using SplitN_first_space [of "''#regex''" arg] by simp

lemma matchWithMarker_nil:
  "matchWithMarker e path JNull marker =
     (if marker = ''#ignore'' \<or> marker = ''#null'' \<or> marker = ''#present'' then Return [] None
      else Return [\<lparr>Path = path, Expected = JString marker, Actual = JNull, Error = None\<rparr>] None)"
  by (simp add: matchWithMarker_def IsValid_def ignoreMarker_def nullMarker_def presentMarker_def)

text \<open>
  The guard at the head of \<^verbatim>\<open>_matchWithMarker\<close> answers for a \<^verbatim>\<open>nil\<close> actual value before
  the marker is looked at: \<^verbatim>\<open>#regex\<close> without an argument against \<^verbatim>\<open>null\<close> is one conflict
  and no error.
\<close>

theorem regex_on_nil_no_error:
  "matchWithMarker example_env ''/'' JNull ''#regex''
     = Return [\<lparr>Path = ''/'', Expected = JString ''#regex'', Actual = JNull, Error = None\<rparr>] None"
  by (simp add: matcher_unfold)

text \<open>
  C4. Against an actual value other than \<^verbatim>\<open>nil\<close> the marker \<^verbatim>\<open>#regex\<close> with no argument,
  and the marker \<^verbatim>\<open>#regex\<close> with an argument that \<^verbatim>\<open>regexp.Compile\<close> rejects, each give
  exactly one conflict (path, marker and actual value) together with an error. Against
  \<^verbatim>\<open>nil\<close> the marker \<^verbatim>\<open>#regex\<close>, with no argument or with any argument, valid or not,
  gives that one conflict and no error.
\<close>

theorem regex_bad_argument_is_error:
  "(x \<noteq> JNull \<longrightarrow>
      matchWithMarker e path x ''#regex''
        = Return [\<lparr>Path = path, Expected = JString ''#regex'', Actual = x, Error = None\<rparr>]
            (Some expected_one_argument_for_regex))
   \<and> (x \<noteq> JNull \<and> regexp_Compile e arg = Some err \<longrightarrow>
        matchWithMarker e path x (''#regex '' @ arg)
          = Return [\<lparr>Path = path, Expected = JString (''#regex '' @ arg), Actual = x, Error = None\<rparr>]
              (Some (invalid_regex_argument err)))
   \<and> matchWithMarker e path JNull ''#regex''
        = Return [\<lparr>Path = path, Expected = JString ''#regex'', Actual = JNull, Error = None\<rparr>] None
   \<and> matchWithMarker e path JNull (''#regex '' @ arg)
        = Return [\<lparr>Path = path, Expected = JString (''#regex '' @ arg), Actual = JNull, Error = None\<rparr>]
            None"
proof -
  have "x \<noteq> JNull \<longrightarrow>
      matchWithMarker e path x ''#regex''
        = Return [\<lparr>Path = path, Expected = JString ''#regex'', Actual = x, Error = None\<rparr>]
            (Some expected_one_argument_for_regex)"
    by (simp add: matchWithMarker_def IsValid_def ignoreMarker_def nullMarker_def presentMarker_def
        SplitN_regex)
  moreover have "x \<noteq> JNull \<and> regexp_Compile e arg = Some err \<longrightarrow>
        matchWithMarker e path x (''#regex '' @ arg)
          = Return [\<lparr>Path = path, Expected = JString (''#regex '' @ arg), Actual = x, Error = None\<rparr>]
              (Some (invalid_regex_argument err))"
    by (simp add: matchWithMarker_def IsValid_def ignoreMarker_def nullMarker_def presentMarker_def
        SplitN_regex_arg del: append.simps)
  ultimately show ?thesis
    by (simp add: matchWithMarker_nil)
qed

theorem regex_bad_argument_is_error_witness:
  "JString ''abc'' \<noteq> JNull
   \<and> matchWithMarker example_env ''/x'' (JString ''abc'') ''#regex''
       = Return [\<lparr>Path = ''/x'', Expected = JString ''#regex'', Actual = JString ''abc'', Error = None\<rparr>]
           (Some expected_one_argument_for_regex)
   \<and> regexp_Compile example_env ''('' = Some (regexp_error ''missing closing )'')
   \<and> matchWithMarker example_env ''/x'' (JString ''abc'') ''#regex (''
       = Return [\<lparr>Path = ''/x'', Expected = JString ''#regex ('', Actual = JString ''abc'', Error = None\<rparr>]
           (Some (invalid_regex_argument (regexp_error ''missing closing )'')))
   \<and> matchWithMarker example_env ''/x'' JNull ''#regex''
       = Return [\<lparr>Path = ''/x'', Expected = JString ''#regex'', Actual = JNull, Error = None\<rparr>] None
   \<and> matchWithMarker example_env ''/x'' JNull ''#regex (''
       = Return [\<lparr>Path = ''/x'', Expected = JString ''#regex ('', Actual = JNull, Error = None\<rparr>]
           None"
  using regex_bad_argument_is_error [of "JString ''abc''" example_env "''/x''" "''(''"
      "regexp_error ''missing closing )''"]
  by (simp add: example_env_def)

text \<open>
  The same guard answers for an unknown marker: against \<^verbatim>\<open>null\<close> it is one conflict and no
  error.
\<close>

theorem unsupported_marker_on_nil_no_error:
  "matchWithMarker example_env ''/'' JNull ''#bogus''
     = Return [\<lparr>Path = ''/'', Expected = JString ''#bogus'', Actual = JNull, Error = None\<rparr>] None"
  by (simp add: matcher_unfold)

text \<open>
  C5. A marker whose name, the text before its first space, is none of the \<^verbatim>\<open>case\<close> labels
  gives, against an actual value other than \<^verbatim>\<open>nil\<close>, exactly one conflict together with the
  error that reports the whole marker as unsupported, and against \<^verbatim>\<open>nil\<close> that one conflict
  and no error.
\<close>

theorem unsupported_marker_is_error:
  assumes "hd (SplitN_space_2 marker) \<notin> set supportedMarkers"
  shows "(x \<noteq> JNull \<longrightarrow>
            matchWithMarker e path x marker
              = Return [\<lparr>Path = path, Expected = JString marker, Actual = x, Error = None\<rparr>]
                  (Some (unsupported_pattern marker)))
         \<and> matchWithMarker e path JNull marker
              = Return [\<lparr>Path = path, Expected = JString marker, Actual = JNull, Error = None\<rparr>] None"
proof -
  have "marker \<noteq> ''#ignore''" and "marker \<noteq> ''#null''" and "marker \<noteq> ''#present''"
    using assms by (auto simp: supportedMarkers_def SplitN_space_2_def)
  then have "matchWithMarker e path JNull marker
              = Return [\<lparr>Path = path, Expected = JString marker, Actual = JNull, Error = None\<rparr>] None"
    by (simp add: matchWithMarker_nil)
  moreover have "x \<noteq> JNull \<longrightarrow>
            matchWithMarker e path x marker
              = Return [\<lparr>Path = path, Expected = JString marker, Actual = x, Error = None\<rparr>]
                  (Some (unsupported_pattern marker))"
    using assms
    by (simp add: matchWithMarker_def supportedMarkers_def IsValid_def ignoreMarker_def nullMarker_def
        presentMarker_def Let_def)
  ultimately show ?thesis by simp
qed

theorem unsupported_marker_is_error_witness:
  "hd (SplitN_space_2 ''#array-of'') \<notin> set supportedMarkers
   \<and> JNumber 3 \<noteq> JNull
   \<and> matchWithMarker example_env ''/x'' (JNumber 3) ''#array-of''
       = Return [\<lparr>Path = ''/x'', Expected = JString ''#array-of'', Actual = JNumber 3, Error = None\<rparr>]
           (Some (unsupported_pattern ''#array-of''))
   \<and> matchWithMarker example_env ''/x'' JNull ''#array-of''
       = Return [\<lparr>Path = ''/x'', Expected = JString ''#array-of'', Actual = JNull, Error = None\<rparr>]
           None"
  using unsupported_marker_is_error [of "''#array-of''" "JNumber 3" example_env "''/x''"]
  by (simp add: supportedMarkers_def SplitN_space_2_def)

lemma matchWithMarker_argument_ignored:
  assumes "x \<noteq> JNull" and "name \<in> set supportedMarkers" and "name \<noteq> ''#regex''"
  shows "matchWithMarker e path x (name @ '' '' @ arg)
           = with_expected (JString (name @ '' '' @ arg)) (matchWithMarker e path x name)"
proof -
  have nospace: "CHR '' '' \<notin> set name"
    using assms(2) by (auto simp: supportedMarkers_def)
  have split: "SplitN_space_2 (name @ '' '' @ arg) = [name, arg]"
    using SplitN_first_space [OF nospace, of arg] by simp
  have split0: "SplitN_space_2 name = [name]"
    using SplitN_no_space [OF nospace] .
  have kind: "Kind_of x \<noteq> reflect_Ptr" "Kind_of x \<noteq> reflect_Struct"
    by (cases x; simp)+
  show ?thesis
    unfolding matchWithMarker_def split split0
    using assms kind
    by (auto simp: with_expected_def supportedMarkers_def IsValid_def ignoreMarker_def
        nullMarker_def presentMarker_def matchTime_def matchStringRe_def Let_def
        split: jvalue.splits simp del: append.simps)
qed

text \<open>
  The separator of \<^verbatim>\<open>strings.SplitN(marker, " ", 2)\<close> is the space character alone. A tab
  after \<^verbatim>\<open>#regex\<close> does not end the name: the whole text is the name, which no \<^verbatim>\<open>case\<close>
  label equals, and the remainder \<^verbatim>\<open>abc\<close> is never compiled, although it is an expression
  that matches the actual string.
\<close>

theorem marker_not_split_at_tab:
  "SplitN_space_2 (''#regex'' @ [CHR 0x09] @ ''abc'') = [''#regex'' @ [CHR 0x09] @ ''abc'']
   \<and> regexp_Compile example_env ''abc'' = None
   \<and> regexp_MatchString example_env ''abc'' ''abc''
   \<and> matchWithMarker example_env ''/'' (JString ''abc'') (''#regex'' @ [CHR 0x09] @ ''abc'')
       = Return [\<lparr>Path = ''/'', Expected = JString (''#regex'' @ [CHR 0x09] @ ''abc''),
                  Actual = JString ''abc'', Error = None\<rparr>]
           (Some (unsupported_pattern (''#regex'' @ [CHR 0x09] @ ''abc'')))"
  by (simp add: matcher_unfold example_env_def)

text \<open>
  C9 (with the space character, U+0020, as the only separator, and for the marker
  interpreter \<^verbatim>\<open>_matchWithMarker\<close>). A marker without a space is its own name and has no
  argument; otherwise the name is the text before the first space and the argument
  everything after it, further spaces included. Against an actual value other than
  \<^verbatim>\<open>nil\<close> the name alone selects the case: a supported marker other than \<^verbatim>\<open>#regex\<close>
  followed by an argument gives the result of its name, with the whole marker as the
  expected value of the conflict; \<^verbatim>\<open>#regex\<close> followed by a space hands the whole remainder to
  \<^verbatim>\<open>regexp.Compile\<close> and matches a string against it; a marker whose name is no case label
  is reported as unsupported. Against \<^verbatim>\<open>nil\<close> the marker is not split: the whole text is
  compared with \<^verbatim>\<open>#ignore\<close>, \<^verbatim>\<open>#null\<close> and \<^verbatim>\<open>#present\<close>.
\<close>

theorem marker_split_at_first_space:
  "(CHR '' '' \<notin> set marker \<longrightarrow> SplitN_space_2 marker = [marker])
   \<and> (CHR '' '' \<notin> set name \<longrightarrow> SplitN_space_2 (name @ '' '' @ arg) = [name, arg])
   \<and> (x \<noteq> JNull \<and> name \<in> set supportedMarkers \<and> name \<noteq> ''#regex'' \<longrightarrow>
        matchWithMarker e path x (name @ '' '' @ arg)
          = with_expected (JString (name @ '' '' @ arg)) (matchWithMarker e path x name))
   \<and> (x \<noteq> JNull \<longrightarrow>
        matchWithMarker e path x (''#regex '' @ arg)
          = (case regexp_Compile e arg of
               Some err \<Rightarrow>
                 Return [\<lparr>Path = path, Expected = JString (''#regex '' @ arg), Actual = x,
                          Error = None\<rparr>] (Some (invalid_regex_argument err))
             | None \<Rightarrow>
                 (case x of
                    JString s \<Rightarrow>
                      if regexp_MatchString e arg s then Return [] None
                      else Return [\<lparr>Path = path, Expected = JString (''#regex '' @ arg),
                                    Actual = x, Error = None\<rparr>] None
                  | _ \<Rightarrow>
                      Return [\<lparr>Path = path, Expected = JString (''#regex '' @ arg), Actual = x,
                               Error = None\<rparr>] None)))
   \<and> (x \<noteq> JNull \<and> hd (SplitN_space_2 marker) \<notin> set supportedMarkers \<longrightarrow>
        matchWithMarker e path x marker
          = Return [\<lparr>Path = path, Expected = JString marker, Actual = x, Error = None\<rparr>]
              (Some (unsupported_pattern marker)))
   \<and> matchWithMarker e path JNull marker
        = (if marker = ''#ignore'' \<or> marker = ''#null'' \<or> marker = ''#present'' then Return [] None
           else Return [\<lparr>Path = path, Expected = JString marker, Actual = JNull, Error = None\<rparr>]
                  None)"
proof -
  note split = SplitN_regex_arg [of arg]
  have regex: "x \<noteq> JNull \<longrightarrow>
        matchWithMarker e path x (''#regex '' @ arg)
          = (case regexp_Compile e arg of
               Some err \<Rightarrow>
                 Return [\<lparr>Path = path, Expected = JString (''#regex '' @ arg), Actual = x,
                          Error = None\<rparr>] (Some (invalid_regex_argument err))
             | None \<Rightarrow>
                 (case x of
                    JString s \<Rightarrow>
                      if regexp_MatchString e arg s then Return [] None
                      else Return [\<lparr>Path = path, Expected = JString (''#regex '' @ arg),
                                    Actual = x, Error = None\<rparr>] None
                  | _ \<Rightarrow>
                      Return [\<lparr>Path = path, Expected = JString (''#regex '' @ arg), Actual = x,
                               Error = None\<rparr>] None))"
    unfolding matchWithMarker_def split
    by (simp add: IsValid_def ignoreMarker_def nullMarker_def presentMarker_def matchStringRe_def
        split: option.splits jvalue.splits del: append.simps)
  have unsupported: "x \<noteq> JNull \<and> hd (SplitN_space_2 marker) \<notin> set supportedMarkers \<longrightarrow>
        matchWithMarker e path x marker
          = Return [\<lparr>Path = path, Expected = JString marker, Actual = x, Error = None\<rparr>]
              (Some (unsupported_pattern marker))"
    by (simp add: matchWithMarker_def supportedMarkers_def IsValid_def ignoreMarker_def
        nullMarker_def presentMarker_def Let_def)
  have ignored: "x \<noteq> JNull \<and> name \<in> set supportedMarkers \<and> name \<noteq> ''#regex'' \<longrightarrow>
        matchWithMarker e path x (name @ '' '' @ arg)
          = with_expected (JString (name @ '' '' @ arg)) (matchWithMarker e path x name)"
    using matchWithMarker_argument_ignored [of x name e path arg] by blast
  have s1: "CHR '' '' \<notin> set marker \<longrightarrow> SplitN_space_2 marker = [marker]"
    using SplitN_no_space [of marker] by blast
  have s2: "CHR '' '' \<notin> set name \<longrightarrow> SplitN_space_2 (name @ '' '' @ arg) = [name, arg]"
    using SplitN_first_space [of name arg] by simp
  show ?thesis
    by (intro conjI) (fact s1 s2 ignored regex unsupported matchWithMarker_nil)+
qed

theorem marker_split_at_first_space_witness:
  "CHR '' '' \<notin> set ''#uuid'' \<and> SplitN_space_2 ''#uuid'' = [''#uuid'']
   \<and> CHR '' '' \<notin> set ''#regex'' \<and> SplitN_space_2 ''#regex a b  c'' = [''#regex'', ''a b  c'']
   \<and> matchWithMarker example_env ''/'' (JString ''a b  c'') ''#regex a b  c'' = Return [] None
   \<and> ''#string'' \<in> set supportedMarkers
   \<and> matchWithMarker example_env ''/'' (JString ''s'') ''#string x y'' = Return [] None
   \<and> matchWithMarker example_env ''/'' (JNumber 1) ''#string x y''
       = Return [\<lparr>Path = ''/'', Expected = JString ''#string x y'', Actual = JNumber 1,
                  Error = None\<rparr>] None
   \<and> hd (SplitN_space_2 ''#bogus x y'') \<notin> set supportedMarkers
   \<and> matchWithMarker example_env ''/'' (JNumber 1) ''#bogus x y''
       = Return [\<lparr>Path = ''/'', Expected = JString ''#bogus x y'', Actual = JNumber 1,
                  Error = None\<rparr>] (Some (unsupported_pattern ''#bogus x y''))
   \<and> matchWithMarker example_env ''/'' JNull ''#ignore x''
       = Return [\<lparr>Path = ''/'', Expected = JString ''#ignore x'', Actual = JNull, Error = None\<rparr>]
           None"
  using marker_split_at_first_space [where marker = "''#uuid''" and name = "''#regex''"
      and arg = "''a b  c''" and e = example_env and path = "''/''" and x = "JString ''a b  c''"]
    marker_split_at_first_space [where marker = "''#bogus x y''" and name = "''#string''"
      and arg = "''x y''" and e = example_env and path = "''/''" and x = "JString ''s''"]
    marker_split_at_first_space [where marker = "''#ignore x''" and name = "''#string''"
      and arg = "''x y''" and e = example_env and path = "''/''" and x = "JNumber 1"]
    marker_split_at_first_space [where marker = "''#bogus x y''" and name = "''#string''"
      and arg = "''x y''" and e = example_env and path = "''/''" and x = "JNumber 1"]
  by (simp add: example_env_def supportedMarkers_def SplitN_space_2_def with_expected_def
      matchWithMarker_def IsValid_def ignoreMarker_def nullMarker_def presentMarker_def)

section \<open>Errors come with conflicts\<close>

















section \<open>A literal pattern matches itself\<close>

lemma same_value_refl: "unique_keys p \<Longrightarrow> same_value p p"
proof (induction p)
  case (JObject kvs)
  have "case map_of kvs (fst kv) of Some v' \<Rightarrow> same_value (snd kv) v' | None \<Rightarrow> False"
    if m: "kv \<in> set kvs" for kv
  proof -
    obtain k v where kv: "kv = (k, v)" by (cases kv)
    have "map_of kvs k = Some v" using JObject.prems m kv by simp
    moreover have "same_value v v"
      using JObject.IH [OF m, of v] JObject.prems m kv by fastforce
    ultimately show ?thesis by (simp add: kv)
  qed
  then show ?case by simp
qed simp_all

lemma same_value_not_marker:
  "same_value a b \<Longrightarrow> literal a \<Longrightarrow> getMarker b = (False, '''')"
  by (cases a; cases b) auto

lemma slice_loop_same:
  assumes "length vX = length vY"
    and "\<forall>i < length vX. \<forall>path. match e path (vX ! i) (vY ! i) = Return [] None"
  shows "matchSlice_loop e path vX vY False arrayOf i conflicts = Return conflicts None"
proof (induction "length vX - i" arbitrary: i)
  case 0
  then show ?case by (subst matchSlice_loop.simps) simp
next
  case (Suc n)
  then have i: "i < length vX" by simp
  then have "match e (path @ ''['' @ Sprint_int i @ '']'') (vX ! i) (vY ! i) = Return [] None"
    using assms(2) by simp
  moreover have "matchSlice_loop e path vX vY False arrayOf (Suc i) conflicts = Return conflicts None"
    using Suc.hyps(1) [of "Suc i"] Suc.hyps(2) by simp
  ultimately show ?case using i assms(1)
    by (subst matchSlice_loop.simps) (simp add: Index_def)
qed

lemma phase1_same:
  assumes "\<forall>kv \<in> set kvs. \<exists>v'. map_of kvs' (fst kv) = Some v'
              \<and> (\<forall>path. match e path (snd kv) v' = Return [] None)"
    and "set iterX \<subseteq> set kvs"
  shows "matchMapCheckIteratingObject_loop e path iterX kvs' conflicts = Return conflicts None"
  using assms(2)
proof (induction iterX)
  case Nil
  then show ?case by simp
next
  case (Cons kv iterX)
  obtain key v where kv: "kv = (key, v)" by (cases kv)
  from Cons.prems kv have "(key, v) \<in> set kvs" by simp
  then obtain v' where "map_of kvs' key = Some v'"
    and "match e (path @ ''/'' @ key) v v' = Return [] None"
    using assms(1) by fastforce
  moreover have "matchMapCheckIteratingObject_loop e path iterX kvs' conflicts = Return conflicts None"
    using Cons by simp
  ultimately show ?case by (simp add: kv)
qed

lemma phase2_same:
  assumes "\<forall>kv' \<in> set kvs'. getMarker (snd kv') = (False, '''')
              \<and> (\<exists>v. map_of kvs (fst kv') = Some v
                    \<and> (\<forall>path. match e path v (snd kv') = Return [] None))"
    and "set iterY \<subseteq> set kvs'"
  shows "matchMapCheckIteratingSpec_loop e path kvs iterY conflicts = Return conflicts None"
  using assms(2)
proof (induction iterY)
  case Nil
  then show ?case by simp
next
  case (Cons kv iterY)
  obtain key v' where kv: "kv = (key, v')" by (cases kv)
  from Cons.prems kv have "(key, v') \<in> set kvs'" by simp
  then obtain v where "getMarker v' = (False, '''')" and "map_of kvs key = Some v"
    and "match e (path @ ''/'' @ key) v v' = Return [] None"
    using assms(1) by fastforce
  moreover have "matchMapCheckIteratingSpec_loop e path kvs iterY conflicts = Return conflicts None"
    using Cons by simp
  ultimately show ?case by (simp add: kv isMarker_def)
qed

lemma match_same_value:
  assumes "same_value p q" and "literal p" and "unique_keys p" and "unique_keys q"
  shows "match e path p q = Return [] None"
  using assms
proof (induction p arbitrary: q path)
  case JNull
  then show ?case by (simp add: match.simps IsValid_def matchZero_def)
next
  case (JBool b)
  then show ?case by (simp add: match.simps IsValid_def matchers_def matchPrimitive_def)
next
  case (JNumber n)
  then show ?case by (simp add: match.simps IsValid_def matchers_def matchPrimitive_def)
next
  case (JString s)
  then show ?case by (simp add: match.simps IsValid_def matchers_def matchPrimitive_def)
next
  case (JArray xs)
  from JArray.prems(1) obtain ys where q: "q = JArray ys" and len: "length xs = length ys"
    and same: "\<forall>i < length xs. same_value (xs ! i) (ys ! i)"
    by (cases q) auto
  have elems: "\<forall>i < length xs. \<forall>path. match e path (xs ! i) (ys ! i) = Return [] None"
  proof (intro allI impI)
    fix i path assume i: "i < length xs"
    then have "xs ! i \<in> set xs" and "ys ! i \<in> set ys" using len by simp_all
    then show "match e path (xs ! i) (ys ! i) = Return [] None"
      using JArray.IH [of "xs ! i" "ys ! i" path] same i JArray.prems q by simp
  qed
  have first: "length ys = 2 \<Longrightarrow> getMarker (ys ! 0) = (False, '''')"
    using same len JArray.prems(2) same_value_not_marker [of "xs ! 0" "ys ! 0"] by simp
  have "matchSlice e path (JArray xs) (JArray ys) = Return [] None"
    by (simp add: matchSlice.simps first len slice_loop_same [OF len elems])
  then show ?case by (simp add: match.simps IsValid_def matchers_def q)
next
  case (JObject kvs)
  from JObject.prems(1) obtain kvs' where q: "q = JObject kvs'"
    and keys: "set (map fst kvs) = set (map fst kvs')"
    and same: "\<forall>kv \<in> set kvs. case map_of kvs' (fst kv) of
                  Some v' \<Rightarrow> same_value (snd kv) v' | None \<Rightarrow> False"
    by (cases q) auto
  have d: "distinct (map fst kvs)" and d': "distinct (map fst kvs')"
    using JObject.prems q by simp_all
  have entry: "\<exists>v'. map_of kvs' k = Some v' \<and> same_value v v'
      \<and> (\<forall>path. match e path v v' = Return [] None)"
    if m: "(k, v) \<in> set kvs" for k v
  proof -
    from same m obtain v' where v': "map_of kvs' k = Some v'" and sv: "same_value v v'"
      by (fastforce split: option.splits)
    then have "(k, v') \<in> set kvs'" by (simp add: map_of_SomeD)
    then have "unique_keys v'" using JObject.prems(4) q by fastforce
    moreover have "literal v" and "unique_keys v" using JObject.prems m by fastforce+
    ultimately have "\<forall>path. match e path v v' = Return [] None"
      using JObject.IH [OF m, of v v'] sv by simp
    then show ?thesis using v' sv by simp
  qed
  have one: "\<forall>kv \<in> set kvs. \<exists>v'. map_of kvs' (fst kv) = Some v'
              \<and> (\<forall>path. match e path (snd kv) v' = Return [] None)"
    using entry by fastforce
  have two: "\<forall>kv' \<in> set kvs'. getMarker (snd kv') = (False, '''')
              \<and> (\<exists>v. map_of kvs (fst kv') = Some v
                    \<and> (\<forall>path. match e path v (snd kv') = Return [] None))"
  proof
    fix kv' assume m': "kv' \<in> set kvs'"
    obtain k v' where kv': "kv' = (k, v')" by (cases kv')
    from m' kv' have look': "map_of kvs' k = Some v'" using d' by simp
    from m' kv' have "k \<in> set (map fst kvs)" using keys by force
    then obtain v where m: "(k, v) \<in> set kvs" by auto
    then have look: "map_of kvs k = Some v" using d by simp
    from entry [OF m] look' have sv: "same_value v v'"
      and ok: "\<forall>path. match e path v v' = Return [] None" by simp_all
    have "literal v" using JObject.prems(2) m by fastforce
    then have "getMarker v' = (False, '''')" using sv same_value_not_marker by blast
    then show "getMarker (snd kv') = (False, '''')
              \<and> (\<exists>v. map_of kvs (fst kv') = Some v
                    \<and> (\<forall>path. match e path v (snd kv') = Return [] None))"
      using look ok by (simp add: kv')
  qed
  have "matchMap e path (JObject kvs) (JObject kvs') = Return [] None"
    by (simp add: matchMap.simps phase1_same [OF one] phase2_same [OF two])
  then show ?case by (simp add: match.simps IsValid_def matchers_def q)
qed

text \<open>
  C7. A value in which no string begins with \<^verbatim>\<open>#\<close>, matched against itself as the
  pattern, gives no conflict and no error, at any path; and so it does against any pattern
  that differs from it only in the order in which its objects are visited.
\<close>

theorem match_reflexive_on_literals:
  assumes "literal p" and "unique_keys p"
  shows "match e path p p = Return [] None
         \<and> (same_value p q \<and> unique_keys q \<longrightarrow> match e path p q = Return [] None)"
  using assms match_same_value [of p p e path] match_same_value [of p q e path] same_value_refl [of p]
  by simp

theorem match_reflexive_on_literals_witness:
  "literal (JObject [(''a'', JArray [JNumber 1, JString ''x'', JNull, JBool True]),
                     (''b'', JObject [(''#c'', JNumber 2)])])
   \<and> unique_keys (JObject [(''a'', JArray [JNumber 1, JString ''x'', JNull, JBool True]),
                     (''b'', JObject [(''#c'', JNumber 2)])])
   \<and> match example_env ''/''
        (JObject [(''a'', JArray [JNumber 1, JString ''x'', JNull, JBool True]),
                  (''b'', JObject [(''#c'', JNumber 2)])])
        (JObject [(''a'', JArray [JNumber 1, JString ''x'', JNull, JBool True]),
                  (''b'', JObject [(''#c'', JNumber 2)])])
      = Return [] None
   \<and> same_value (JObject [(''a'', JArray [JNumber 1, JString ''x'', JNull, JBool True]),
                     (''b'', JObject [(''#c'', JNumber 2)])])
        (JObject [(''b'', JObject [(''#c'', JNumber 2)]),
                  (''a'', JArray [JNumber 1, JString ''x'', JNull, JBool True])])
   \<and> unique_keys (JObject [(''b'', JObject [(''#c'', JNumber 2)]),
                  (''a'', JArray [JNumber 1, JString ''x'', JNull, JBool True])])
   \<and> match example_env ''/''
        (JObject [(''a'', JArray [JNumber 1, JString ''x'', JNull, JBool True]),
                  (''b'', JObject [(''#c'', JNumber 2)])])
        (JObject [(''b'', JObject [(''#c'', JNumber 2)]),
                  (''a'', JArray [JNumber 1, JString ''x'', JNull, JBool True])])
      = Return [] None"
  using match_reflexive_on_literals [of
      "JObject [(''a'', JArray [JNumber 1, JString ''x'', JNull, JBool True]),
                (''b'', JObject [(''#c'', JNumber 2)])]"
      example_env "''/''"
      "JObject [(''b'', JObject [(''#c'', JNumber 2)]),
                (''a'', JArray [JNumber 1, JString ''x'', JNull, JBool True])]"]
  by (simp add: HasPrefix_def nth_Cons insert_commute split: nat.splits)

section \<open>The entry point\<close>

text \<open>
  C8. When \<^verbatim>\<open>json.Unmarshal\<close> rejects the actual bytes, or accepts them and rejects the
  pattern bytes, \<^verbatim>\<open>JSONMatches\<close> returns exactly one conflict, at the path \<^verbatim>\<open>/\<close>, whose
  \<^verbatim>\<open>Error\<close> is the decoder's error, together with an error that wraps it.
\<close>

theorem JSONMatches_malformed_input:
  "(json_Unmarshal e j = Inl err \<longrightarrow>
      JSONMatches e j jPatternSpecifier
        = Return [\<lparr>Path = ''/'', Expected = JNull, Actual = JNull, Error = Some err\<rparr>]
            (Some (cant_unmarshal_left err)))
   \<and> (json_Unmarshal e j = Inr jAny \<and> json_Unmarshal e jPatternSpecifier = Inl err \<longrightarrow>
      JSONMatches e j jPatternSpecifier
        = Return [\<lparr>Path = ''/'', Expected = JNull, Actual = JNull, Error = Some err\<rparr>]
            (Some (cant_unmarshal_pattern err)))"
  by (simp add: JSONMatches_def)

theorem JSONMatches_malformed_input_witness:
  \<open>json_Unmarshal example_env ''{bad'' = Inl (json_error ''invalid character'')
   \<and> JSONMatches example_env ''{bad'' ''{"a":1}''
       = Return [\<lparr>Path = ''/'', Expected = JNull, Actual = JNull,
                  Error = Some (json_error ''invalid character'')\<rparr>]
           (Some (cant_unmarshal_left (json_error ''invalid character'')))
   \<and> json_Unmarshal example_env ''{"a":1}'' = Inr (JObject [(''a'', JNumber 1)])
   \<and> JSONMatches example_env ''{"a":1}'' ''{bad''
       = Return [\<lparr>Path = ''/'', Expected = JNull, Actual = JNull,
                  Error = Some (json_error ''invalid character'')\<rparr>]
           (Some (cant_unmarshal_pattern (json_error ''invalid character'')))\<close>
  using JSONMatches_malformed_input [of example_env \<open>''{bad''\<close> \<open>json_error ''invalid character''\<close>
      \<open>''{"a":1}''\<close>]
    JSONMatches_malformed_input [of example_env \<open>''{"a":1}''\<close> \<open>json_error ''invalid character''\<close>
      \<open>''{bad''\<close> \<open>JObject [(''a'', JNumber 1)]\<close>]
  by (simp add: example_env_def example_Unmarshal_def)

lemma HasPrefix_iff_prefix: "HasPrefix s p \<longleftrightarrow> prefix p s"
  unfolding HasPrefix_def
  by (metis append_eq_conv_conj prefix_def take_is_prefix)

lemma strip_still_double:
  "HasPrefix (if HasPrefix p ''//'' then drop 1 p else p) ''//'' \<longleftrightarrow> HasPrefix p ''///''"
  by (auto simp: HasPrefix_iff_prefix prefix_def)

lemma stripPath_fields:
  "Path (stripPath c) = (if HasPrefix (Path c) ''//'' then drop 1 (Path c) else Path c)"
  "Expected (stripPath c) = Expected c" "Actual (stripPath c) = Actual c" "Error (stripPath c) = Error c"
  by (simp_all add: stripPath_def)

text \<open>
  One slash is removed, not all but one. The key \<^verbatim>\<open>/a\<close> at the root gives the path
  \<^verbatim>\<open>///a\<close>, and the path returned for it is \<^verbatim>\<open>//a\<close>.
\<close>

theorem JSONMatches_double_slash_path:
  \<open>JSONMatches example_env ''{"/a":1}'' ''{"/a":2}'' =
     Return [\<lparr>Path = ''//a'', Expected = JNumber 2, Actual = JNumber 1, Error = None\<rparr>] None\<close>
  by (simp add: example_unfold matcher_unfold)

text \<open>
  C10 (without the conclusion that no returned path begins with \<^verbatim>\<open>//\<close>). When both inputs
  decode, \<^verbatim>\<open>JSONMatches\<close> returns the conflicts of \<^verbatim>\<open>_match\<close> at the root, in their order and
  with the same error; a path that began with \<^verbatim>\<open>//\<close> has lost exactly its first character,
  any other path and every other field is unchanged. A returned path begins with \<^verbatim>\<open>//\<close>
  exactly when the path produced began with \<^verbatim>\<open>///\<close>.
\<close>

theorem JSONMatches_strips_one_slash:
  assumes "json_Unmarshal e j = Inr jAny"
    and "json_Unmarshal e jPatternSpecifier = Inr patternSpecAny"
    and "match e ''/'' jAny patternSpecAny = Return produced err"
  shows "\<exists>returned.
           JSONMatches e j jPatternSpecifier = Return returned err
           \<and> length returned = length produced
           \<and> (\<forall>i < length produced.
                 Path (returned ! i) =
                   (if HasPrefix (Path (produced ! i)) ''//'' then drop 1 (Path (produced ! i))
                    else Path (produced ! i))
                 \<and> Expected (returned ! i) = Expected (produced ! i)
                 \<and> Actual (returned ! i) = Actual (produced ! i)
                 \<and> Error (returned ! i) = Error (produced ! i)
                 \<and> (HasPrefix (Path (returned ! i)) ''//'' \<longleftrightarrow>
                      HasPrefix (Path (produced ! i)) ''///''))"
proof -
  have "JSONMatches e j jPatternSpecifier = Return (map stripPath produced) err"
    using assms by (simp add: JSONMatches_def)
  moreover have "length (map stripPath produced) = length produced" by simp
  moreover have "\<forall>i < length produced.
      Path (map stripPath produced ! i) =
         (if HasPrefix (Path (produced ! i)) ''//'' then drop 1 (Path (produced ! i))
          else Path (produced ! i))
      \<and> Expected (map stripPath produced ! i) = Expected (produced ! i)
      \<and> Actual (map stripPath produced ! i) = Actual (produced ! i)
      \<and> Error (map stripPath produced ! i) = Error (produced ! i)
      \<and> (HasPrefix (Path (map stripPath produced ! i)) ''//'' \<longleftrightarrow>
            HasPrefix (Path (produced ! i)) ''///'')"
    using strip_still_double by (simp add: stripPath_fields del: One_nat_def)
  ultimately show ?thesis by blast
qed

theorem JSONMatches_strips_one_slash_witness:
  \<open>json_Unmarshal example_env ''{"a":1}'' = Inr (JObject [(''a'', JNumber 1)])
   \<and> json_Unmarshal example_env ''{"a":2}'' = Inr (JObject [(''a'', JNumber 2)])
   \<and> match example_env ''/'' (JObject [(''a'', JNumber 1)]) (JObject [(''a'', JNumber 2)])
       = Return [\<lparr>Path = ''//a'', Expected = JNumber 2, Actual = JNumber 1, Error = None\<rparr>] None
   \<and> JSONMatches example_env ''{"a":1}'' ''{"a":2}''
       = Return [\<lparr>Path = ''/a'', Expected = JNumber 2, Actual = JNumber 1, Error = None\<rparr>] None\<close>
  using JSONMatches_strips_one_slash [of example_env \<open>''{"a":1}''\<close> \<open>JObject [(''a'', JNumber 1)]\<close>
      \<open>''{"a":2}''\<close> \<open>JObject [(''a'', JNumber 2)]\<close>
      \<open>[\<lparr>Path = ''//a'', Expected = JNumber 2, Actual = JNumber 1, Error = None\<rparr>]\<close> None]
  by (simp add: example_unfold matcher_unfold)

end
